theory Spec2Isabelle
  imports Main "HOL-Library.Sublist"
begin

section \<open>Python values, exceptions and string helpers\<close>

text \<open>
  The values that cross the function-calling boundary: what \<^verbatim>\<open>json.loads\<close> produces,
  what a tool function returns and what \<^verbatim>\<open>to_dict\<close> builds. A dictionary is kept as the
  list of its items in insertion order, its keys being strings throughout the program.
  Every other Python object (a float, a library object) is an opaque \<open>PyOther\<close>.
\<close>

datatype 'a py =
    PyNone
  | PyBool bool
  | PyInt int
  | PyStr string
  | PyList "'a py list"
  | PyDict "(string \<times> 'a py) list"
  | PyOther 'a

text \<open>
  Exceptions as values. The three parameter exceptions are the classes of
  \<^verbatim>\<open>openai_function_helper.py\<close>; each carries the message it was raised with.
  \<open>OtherException cls msg\<close> is any other instance of \<^verbatim>\<open>Exception\<close> (class name and
  \<^verbatim>\<open>str(e)\<close>); \<open>SystemExiting cls msg\<close> is an exception that derives from
  \<^verbatim>\<open>BaseException\<close> only (\<^verbatim>\<open>KeyboardInterrupt\<close>, \<^verbatim>\<open>SystemExit\<close>, \<^verbatim>\<open>GeneratorExit\<close>),
  which \<^verbatim>\<open>except Exception\<close> does not catch. The messages of the exceptions that the
  interpreter itself raises are written without their quotation marks.
\<close>

datatype py_exception =
    MissingParametersException string
  | UnexpectedParametersException string
  | InvalidParametersException string
  | RuntimeError string
  | TypeError string
  | AttributeError string
  | IndexError string
  | OtherException string string
  | SystemExiting string string

fun isinstance_Exception :: "py_exception \<Rightarrow> bool" where
  "isinstance_Exception (SystemExiting cls msg) = False"
| "isinstance_Exception e = True"

text \<open>\<^verbatim>\<open>str(e)\<close>: the message of the exception.\<close>

fun str_exception :: "py_exception \<Rightarrow> string" where
  "str_exception (MissingParametersException msg) = msg"
| "str_exception (UnexpectedParametersException msg) = msg"
| "str_exception (InvalidParametersException msg) = msg"
| "str_exception (RuntimeError msg) = msg"
| "str_exception (TypeError msg) = msg"
| "str_exception (AttributeError msg) = msg"
| "str_exception (IndexError msg) = msg"
| "str_exception (OtherException cls msg) = msg"
| "str_exception (SystemExiting cls msg) = msg"

text \<open>\<^verbatim>\<open>sep.join(xs)\<close>.\<close>

fun join :: "string \<Rightarrow> string list \<Rightarrow> string" where
  "join sep [] = []"
| "join sep [x] = x"
| "join sep (x # y # ys) = x @ sep @ join sep (y # ys)"

text \<open>
  Truthiness of an optional list or dictionary: \<^verbatim>\<open>None\<close> and the empty container are
  falsy.
\<close>

definition truthy :: "'x list option \<Rightarrow> bool" where
  "truthy v = (case v of None \<Rightarrow> False | Some xs \<Rightarrow> xs \<noteq> [])"

text \<open>The elements of an optional container that has passed a truthiness test.\<close>

definition items :: "'x list option \<Rightarrow> 'x list" where
  "items v = (case v of None \<Rightarrow> [] | Some xs \<Rightarrow> xs)"

text \<open>
  \<^verbatim>\<open>d[k] = v\<close> on a dictionary: an existing key keeps its position and takes the new
  value, a new key is appended.
\<close>

fun dict_set :: "(string \<times> 'v) list \<Rightarrow> string \<Rightarrow> 'v \<Rightarrow> (string \<times> 'v) list" where
  "dict_set [] k v = [(k, v)]"
| "dict_set ((k', v') # d) k v =
     (if k' = k then (k', v) # d else (k', v') # dict_set d k v)"

text \<open>\<^verbatim>\<open>d.get(k)\<close> on a value that is a dictionary.\<close>

fun py_get :: "'a py \<Rightarrow> string \<Rightarrow> 'a py option" where
  "py_get (PyDict d) k = map_of d k"
| "py_get v k = None"

definition py_optional_str :: "string option \<Rightarrow> 'a py" where
  "py_optional_str s = (case s of None \<Rightarrow> PyNone | Some t \<Rightarrow> PyStr t)"


section \<open>The function helper: \<^verbatim>\<open>openai_function_helper.py\<close>\<close>

record Property =
  name :: string
  type :: string
  required :: bool
  description :: "string option"

record 'a FunctionCall =
  call_id :: string
  name :: string
  arguments :: "(string \<times> 'a py) list option"

text \<open>
  \<open>func\<close> is the abstract method: it takes the keyword arguments and returns a value or
  raises. It is modelled as a function of its keyword arguments; what it does to the
  outside world (a database, a file) is not tracked.
\<close>

record 'a Function =
  name :: string
  description :: "string option"
  parameters :: "Property list option"
  func :: "(string \<times> 'a py) list \<Rightarrow> py_exception + 'a py"

subsection \<open>\<^verbatim>\<open>Function.to_dict\<close>\<close>

definition property_schema :: "Property \<Rightarrow> 'b py" where
  "property_schema p =
     PyDict [(''type'', PyStr (Property.type p)),
             (''description'', py_optional_str (Property.description p))]"

text \<open>
  The dictionary comprehension \<^verbatim>\<open>{p.name: {...} for p in self.parameters}\<close>: the
  entries are stored one after the other, so a name that occurs twice keeps one entry,
  which holds the later parameter's schema.
\<close>

fun properties_dict :: "(string \<times> 'b py) list \<Rightarrow> Property list \<Rightarrow> (string \<times> 'b py) list" where
  "properties_dict d [] = d"
| "properties_dict d (p # ps) =
     properties_dict (dict_set d (Property.name p) (property_schema p)) ps"

definition required_names :: "Property list \<Rightarrow> string list" where
  "required_names ps = map Property.name (filter Property.required ps)"

definition to_dict :: "'a Function \<Rightarrow> 'b py" where
  "to_dict self =
     (case Function.parameters self of
        None \<Rightarrow>
          PyDict [(''name'', PyStr (Function.name self)),
                  (''description'', py_optional_str (Function.description self)),
                  (''parameters'',
                     PyDict [(''type'', PyStr ''object''),
                             (''properties'', PyDict []),
                             (''required'', PyList [])])]
      | Some ps \<Rightarrow>
          PyDict [(''name'', PyStr (Function.name self)),
                  (''description'', py_optional_str (Function.description self)),
                  (''parameters'',
                     PyDict [(''type'', PyStr ''object''),
                             (''properties'', PyDict (properties_dict [] ps)),
                             (''required'', PyList (map PyStr (required_names ps)))])])"

subsection \<open>\<^verbatim>\<open>Function.run\<close> and \<^verbatim>\<open>Function.run_catch_exceptions\<close>\<close>

text \<open>
  \<^verbatim>\<open>[p.name for p in self.parameters if p.required and p.name not in arguments]\<close>,
  the list \<^verbatim>\<open>missing_parameters\<close> of \<^verbatim>\<open>run\<close>.
\<close>

definition missing_parameters :: "Property list \<Rightarrow> (string \<times> 'a py) list \<Rightarrow> string list" where
  "missing_parameters ps args =
     map Property.name
       (filter (\<lambda>p. Property.required p \<and> Property.name p \<notin> set (map fst args)) ps)"

text \<open>
  \<^verbatim>\<open>self.func(**arguments)\<close>: unpacking \<^verbatim>\<open>None\<close> raises a \<^verbatim>\<open>TypeError\<close> before the
  function is entered (the interpreter prefixes the message with the name of the callee,
  which the model leaves out).
\<close>

definition call_kwargs ::
  "((string \<times> 'a py) list \<Rightarrow> py_exception + 'a py) \<Rightarrow> (string \<times> 'a py) list option
     \<Rightarrow> py_exception + 'a py" where
  "call_kwargs f kwargs =
     (case kwargs of
        None \<Rightarrow> Inl (TypeError ''argument after ** must be a mapping, not NoneType'')
      | Some kw \<Rightarrow> f kw)"

text \<open>
  \<^verbatim>\<open>run\<close>. The parameter \<^verbatim>\<open>function_call\<close> defaults to \<^verbatim>\<open>None\<close>, whose attribute
  \<^verbatim>\<open>arguments\<close> cannot be read. The third check runs only when \<^verbatim>\<open>self.parameters\<close> is
  truthy; the first check has then already excluded falsy arguments, so the membership
  test always meets a dictionary.
\<close>

definition run :: "'a Function \<Rightarrow> 'a FunctionCall option \<Rightarrow> py_exception + 'a py" where
  "run self function_call =
     (case function_call of
        None \<Rightarrow> Inl (AttributeError ''NoneType object has no attribute arguments'')
      | Some fc \<Rightarrow>
          if \<not> truthy (FunctionCall.arguments fc) \<and> truthy (Function.parameters self)
          then Inl (MissingParametersException ''Missing parameters'')
          else if truthy (FunctionCall.arguments fc) \<and> \<not> truthy (Function.parameters self)
          then Inl (UnexpectedParametersException ''Unexpected parameters'')
          else if truthy (Function.parameters self)
                  \<and> missing_parameters (items (Function.parameters self))
                        (items (FunctionCall.arguments fc)) \<noteq> []
          then Inl (MissingParametersException
                      (''Missing parameter(s): ''
                         @ join '', '' (missing_parameters (items (Function.parameters self))
                                         (items (FunctionCall.arguments fc)))))
          else call_kwargs (func self) (FunctionCall.arguments fc))"

text \<open>
  \<^verbatim>\<open>run_catch_exceptions\<close>. \<open>format_exc\<close> stands for \<^verbatim>\<open>traceback.format_exc()\<close>, the
  text of the stack trace of the exception being handled. \<^verbatim>\<open>except Exception\<close> catches
  the instances of \<^verbatim>\<open>Exception\<close>; anything else goes on to the caller.
\<close>

definition run_catch_exceptions ::
  "(py_exception \<Rightarrow> string) \<Rightarrow> 'a Function \<Rightarrow> 'a FunctionCall option \<Rightarrow> py_exception + 'a py" where
  "run_catch_exceptions format_exc self function_call =
     (case run self function_call of
        Inr result \<Rightarrow> Inr result
      | Inl e \<Rightarrow>
          if isinstance_Exception e
          then Inr (PyStr (str_exception e @ ''\<newline>'' @ format_exc e))
          else Inl e)"


section \<open>More string helpers\<close>

text \<open>
  \<^verbatim>\<open>s.replace(old, new)\<close>: every occurrence of \<open>old\<close> is replaced, scanning from the
  left and resuming after each replaced occurrence. With an empty \<open>old\<close>, \<open>new\<close> is put
  before every character and at the end.
\<close>

function replace_occurrences :: "string \<Rightarrow> string \<Rightarrow> string \<Rightarrow> string" where
  "replace_occurrences old new [] = []"
| "replace_occurrences old new (c # cs) =
     (if old \<noteq> [] \<and> prefix old (c # cs)
      then new @ replace_occurrences old new (drop (length old) (c # cs))
      else c # replace_occurrences old new cs)"
  by pat_completeness auto
termination
  by (relation "measure (\<lambda>(old, new, s). length s)") auto

definition replace :: "string \<Rightarrow> string \<Rightarrow> string \<Rightarrow> string" where
  "replace old new s =
     (if old = [] then new @ concat (map (\<lambda>c. c # new) s)
      else replace_occurrences old new s)"

text \<open>\<^verbatim>\<open>str(n)\<close> for a non-negative integer: its decimal digits.\<close>

definition digit_char :: "nat \<Rightarrow> char" where
  "digit_char d = ''0123456789'' ! d"

function str_nat :: "nat \<Rightarrow> string" where
  "str_nat n = (if n < 10 then [digit_char n] else str_nat (n div 10) @ [digit_char (n mod 10)])"
  by pat_completeness auto
termination
  by (relation "measure id") auto

declare str_nat.simps [simp del]

text \<open>\<^verbatim>\<open>filename.split("/")[-1]\<close>: what follows the last slash.\<close>

definition base_name :: "string \<Rightarrow> string" where
  "base_name filename = rev (takeWhile (\<lambda>c. c \<noteq> CHR ''/'') (rev filename))"

text \<open>\<^verbatim>\<open>str(xs)\<close> of a list, given the \<^verbatim>\<open>repr\<close> of each element.\<close>

definition str_list :: "string list \<Rightarrow> string" where
  "str_list reprs = ''['' @ join '', '' reprs @ '']''"


section \<open>The assistant helper: \<^verbatim>\<open>openai_assistant_helper.py\<close>\<close>

subsection \<open>The objects of the remote service\<close>

text \<open>
  The types of the client library, with the fields the program reads. A tool call holds
  the descriptor of the function to call: its name and its arguments as a JSON text.
  Some fields cannot keep their name, which is a keyword or a constant of the logic:
  \<open>tool_id\<close>, \<open>run_id\<close> and \<open>file_object_id\<close> are the \<^verbatim>\<open>id\<close> of a tool call, a run and a
  file; \<open>tool_function\<close> is \<^verbatim>\<open>tool.function\<close>; \<open>tool_output\<close> is the key \<^verbatim>\<open>output\<close>;
  \<open>annotation_text\<close> is \<^verbatim>\<open>annotation.text\<close>; \<open>text_value\<close> is the \<^verbatim>\<open>value\<close> of a text;
  \<open>message_run_id\<close> is \<^verbatim>\<open>message.run_id\<close>.
\<close>

record ToolFunction =
  name :: string
  arguments :: string

record ToolCall =
  tool_id :: string
  tool_function :: ToolFunction

text \<open>
  A run. \<open>required_action\<close> is \<^verbatim>\<open>run.required_action\<close>, either \<^verbatim>\<open>None\<close> or the list
  \<^verbatim>\<open>required_action.submit_tool_outputs.tool_calls\<close>.
\<close>

record 'a Run =
  run_id :: string
  status :: string
  last_error :: "'a py"
  required_action :: "ToolCall list option"

text \<open>An entry of the batch: the dictionary with the keys \<^verbatim>\<open>tool_call_id\<close> and \<^verbatim>\<open>output\<close>.\<close>

record 'a ToolOutput =
  tool_call_id :: string
  tool_output :: "'a py"

record FileCitation =
  file_id :: string
  quote :: string

record FilePath =
  file_id :: string

text \<open>
  An annotation of a message text: the annotated text, and the attributes
  \<^verbatim>\<open>file_citation\<close> and \<^verbatim>\<open>file_path\<close> that \<^verbatim>\<open>format_message\<close> reads with
  \<^verbatim>\<open>getattr(annotation, ..., None)\<close>.
\<close>

record Annotation =
  annotation_text :: string
  file_citation :: "FileCitation option"
  file_path :: "FilePath option"

record Text =
  text_value :: string
  annotations :: "Annotation list"

datatype Content =
    MessageContentText Text
  | MessageContentImageFile string

record ThreadMessage =
  message_run_id :: "string option"
  role :: string
  content :: "Content list"

record FileObject =
  file_object_id :: string
  filename :: string

text \<open>
  The operations of the remote client that the program calls. Each may raise. The file
  operations and the message listing read the remote state \<open>'r\<close>; the run operations
  also change it.
\<close>

record ('a, 'r) Client =
  files_retrieve :: "'r \<Rightarrow> string \<Rightarrow> py_exception + FileObject"
  files_content :: "'r \<Rightarrow> string \<Rightarrow> py_exception + 'a py"
  messages_list :: "'r \<Rightarrow> string \<Rightarrow> py_exception + ThreadMessage list"
  messages_create :: "'r \<Rightarrow> string \<Rightarrow> string \<Rightarrow> string list \<Rightarrow> py_exception option \<times> 'r"
  runs_create :: "'r \<Rightarrow> string \<Rightarrow> string \<Rightarrow> string option \<Rightarrow> (py_exception + 'a Run) \<times> 'r"
  runs_retrieve :: "'r \<Rightarrow> string \<Rightarrow> string \<Rightarrow> (py_exception + 'a Run) \<times> 'r"
  runs_submit_tool_outputs ::
    "'r \<Rightarrow> string \<Rightarrow> string \<Rightarrow> 'a ToolOutput list \<Rightarrow> (py_exception + 'a Run) \<times> 'r"

text \<open>
  What the interpreter and its libraries supply: the text of the current stack trace;
  the decoding of a tool call's argument text, which is \<^verbatim>\<open>json.loads\<close> followed by the
  validation of the field \<^verbatim>\<open>arguments: Optional[Dict]\<close> when the \<^verbatim>\<open>FunctionCall\<close> is
  built; the \<^verbatim>\<open>repr\<close> of a function descriptor and the \<^verbatim>\<open>str\<close> of a run's last error;
  and writing a text file (\<^verbatim>\<open>open(name, 'w')\<close>, then \<^verbatim>\<open>write\<close>) to the local storage
  \<open>'f\<close>.
\<close>

record ('a, 'f) Runtime =
  format_exc :: "py_exception \<Rightarrow> string"
  loads_arguments :: "string \<Rightarrow> py_exception + (string \<times> 'a py) list option"
  repr_function :: "ToolFunction \<Rightarrow> string"
  str_last_error :: "'a py \<Rightarrow> string"
  write_text :: "'f \<Rightarrow> string \<Rightarrow> 'a py \<Rightarrow> py_exception option \<times> 'f"

text \<open>
  The assistant. \<open>assistant_functions\<close> is \<^verbatim>\<open>self.functions\<close>, which defaults to
  \<^verbatim>\<open>None\<close> in the constructor; \<open>assistant_id\<close> is \<^verbatim>\<open>self.assistant.id\<close>. The flag
  \<^verbatim>\<open>verbose\<close> only adds printing, which the model leaves out.
\<close>

record ('a, 'r) AIAssistant =
  client :: "('a, 'r) Client"
  assistant_id :: string
  assistant_functions :: "'a Function list option"

subsection \<open>\<^verbatim>\<open>AIAssistant.create_tool_outputs\<close>\<close>

text \<open>
  The head of the loop body: the \<^verbatim>\<open>FunctionCall\<close> of a tool call. A non-empty argument
  text is decoded, an empty one stands for the empty dictionary.
\<close>

definition function_call_of ::
  "('a, 'f) Runtime \<Rightarrow> ToolCall \<Rightarrow> py_exception + 'a FunctionCall" where
  "function_call_of rt tool =
     (case (if ToolFunction.arguments (tool_function tool) \<noteq> []
            then loads_arguments rt (ToolFunction.arguments (tool_function tool))
            else Inr (Some []))
      of Inl e \<Rightarrow> Inl e
       | Inr function_arguments \<Rightarrow>
           Inr \<lparr>call_id = tool_id tool,
                FunctionCall.name = ToolFunction.name (tool_function tool),
                FunctionCall.arguments = function_arguments\<rparr>)"

text \<open>
  The inner loop \<^verbatim>\<open>for function in self.functions\<close>: every registered function whose
  name equals the requested name is run and its response appended; the loop does not
  stop at the first match. The state is the flag \<^verbatim>\<open>tool_found\<close> and the list
  \<^verbatim>\<open>tool_outputs\<close>.
\<close>

fun run_registered ::
  "(py_exception \<Rightarrow> string) \<Rightarrow> 'a Function list \<Rightarrow> 'a FunctionCall
     \<Rightarrow> bool \<times> 'a ToolOutput list \<Rightarrow> py_exception + bool \<times> 'a ToolOutput list" where
  "run_registered fe [] fc (tool_found, tool_outputs) = Inr (tool_found, tool_outputs)"
| "run_registered fe (f # fs) fc (tool_found, tool_outputs) =
     (if Function.name f = FunctionCall.name fc
      then (case run_catch_exceptions fe f (Some fc) of
              Inl e \<Rightarrow> Inl e
            | Inr response \<Rightarrow>
                run_registered fe fs fc
                  (True, tool_outputs @ [\<lparr>tool_call_id = call_id fc, tool_output = response\<rparr>]))
      else run_registered fe fs fc (tool_found, tool_outputs))"

definition not_found_output :: "'a FunctionCall \<Rightarrow> 'a ToolOutput" where
  "not_found_output fc =
     \<lparr>tool_call_id = call_id fc,
      tool_output = PyStr (''Function '' @ FunctionCall.name fc @ '' not found'')\<rparr>"

text \<open>
  The outer loop over the pending tool calls. Iterating over \<^verbatim>\<open>self.functions\<close> when it
  is \<^verbatim>\<open>None\<close> raises a \<^verbatim>\<open>TypeError\<close>.
\<close>

fun tool_outputs_loop ::
  "('a, 'f) Runtime \<Rightarrow> 'a Function list option \<Rightarrow> ToolCall list \<Rightarrow> 'a ToolOutput list
     \<Rightarrow> py_exception + 'a ToolOutput list" where
  "tool_outputs_loop rt fns [] tool_outputs = Inr tool_outputs"
| "tool_outputs_loop rt fns (tool # tools) tool_outputs =
     (case function_call_of rt tool of
        Inl e \<Rightarrow> Inl e
      | Inr fc \<Rightarrow>
          (case fns of
             None \<Rightarrow> Inl (TypeError ''NoneType object is not iterable'')
           | Some fs \<Rightarrow>
               (case run_registered (format_exc rt) fs fc (False, tool_outputs) of
                  Inl e \<Rightarrow> Inl e
                | Inr (tool_found, outputs) \<Rightarrow>
                    tool_outputs_loop rt fns tools
                      (if \<not> tool_found then outputs @ [not_found_output fc] else outputs))))"

definition create_tool_outputs ::
  "('a, 'f) Runtime \<Rightarrow> ('a, 'r) AIAssistant \<Rightarrow> 'a Run \<Rightarrow> py_exception + 'a ToolOutput list" where
  "create_tool_outputs rt self the_run =
     (case required_action the_run of
        None \<Rightarrow> Inl (AttributeError ''NoneType object has no attribute submit_tool_outputs'')
      | Some tool_calls \<Rightarrow> tool_outputs_loop rt (assistant_functions self) tool_calls [])"

subsection \<open>\<^verbatim>\<open>AIAssistant.get_required_functions_names\<close>\<close>

text \<open>
  The list collects \<^verbatim>\<open>tool.function\<close>, the descriptor of each pending call (its name and
  its argument text), not the name alone.
\<close>

definition get_required_functions_names ::
  "('a, 'r) AIAssistant \<Rightarrow> 'a Run \<Rightarrow> py_exception + ToolFunction list" where
  "get_required_functions_names self the_run =
     (case required_action the_run of
        None \<Rightarrow> Inl (AttributeError ''NoneType object has no attribute submit_tool_outputs'')
      | Some tool_calls \<Rightarrow> Inr (map tool_function tool_calls))"


subsection \<open>\<^verbatim>\<open>AIAssistant.create_file\<close> and \<^verbatim>\<open>AIAssistant.format_message\<close>\<close>

definition create_file ::
  "('a, 'f) Runtime \<Rightarrow> ('a, 'r) AIAssistant \<Rightarrow> 'r \<Rightarrow> 'f \<Rightarrow> string \<Rightarrow> string
     \<Rightarrow> py_exception option \<times> 'f" where
  "create_file rt self remote files fname fid =
     (case files_content (client self) remote fid of
        Inl e \<Rightarrow> (Some e, files)
      | Inr file_content \<Rightarrow> write_text rt files (base_name fname) file_content)"

definition index_marker :: "nat \<Rightarrow> string" where
  "index_marker index = '' ['' @ str_nat index @ '']''"

definition citation_line :: "nat \<Rightarrow> FileCitation \<Rightarrow> FileObject \<Rightarrow> string" where
  "citation_line index fc cited_file =
     ''['' @ str_nat index @ ''] '' @ quote fc @ '' from '' @ filename cited_file"

definition download_line :: "nat \<Rightarrow> FileObject \<Rightarrow> string" where
  "download_line index cited_file =
     ''['' @ str_nat index @ ''] file: '' @ filename cited_file @ '' is downloaded''"

text \<open>
  The loop \<^verbatim>\<open>for index, annotation in enumerate(annotations)\<close>. Its state is the message
  text, the list \<^verbatim>\<open>citations\<close> and the local storage. A file citation takes precedence
  over a file path; an annotation with neither adds no citation.
\<close>

fun format_annotations ::
  "('a, 'f) Runtime \<Rightarrow> ('a, 'r) AIAssistant \<Rightarrow> 'r \<Rightarrow> nat \<Rightarrow> Annotation list
     \<Rightarrow> string \<Rightarrow> string list \<Rightarrow> 'f \<Rightarrow> (py_exception + string \<times> string list) \<times> 'f" where
  "format_annotations rt self remote index [] body citations files =
     (Inr (body, citations), files)"
| "format_annotations rt self remote index (annotation # rest) body citations files =
     (let body' = replace (annotation_text annotation) (index_marker index) body in
      case file_citation annotation of
        Some fc \<Rightarrow>
          (case files_retrieve (client self) remote (FileCitation.file_id fc) of
             Inl e \<Rightarrow> (Inl e, files)
           | Inr cited_file \<Rightarrow>
               format_annotations rt self remote (Suc index) rest body'
                 (citations @ [citation_line index fc cited_file]) files)
      | None \<Rightarrow>
          (case file_path annotation of
             Some fp \<Rightarrow>
               (case files_retrieve (client self) remote (FilePath.file_id fp) of
                  Inl e \<Rightarrow> (Inl e, files)
                | Inr cited_file \<Rightarrow>
                    (case create_file rt self remote files (filename cited_file)
                            (file_object_id cited_file) of
                       (Some e, files') \<Rightarrow> (Inl e, files')
                     | (None, files') \<Rightarrow>
                         format_annotations rt self remote (Suc index) rest body'
                           (citations @ [download_line index cited_file]) files'))
           | None \<Rightarrow>
               format_annotations rt self remote (Suc index) rest body' citations files))"

text \<open>
  \<^verbatim>\<open>format_message\<close>. The text object is \<^verbatim>\<open>message.content[0].text\<close>; a first content
  part without that attribute (an image) is used in its place and has no
  \<^verbatim>\<open>annotations\<close>. The source also stores the formatted text back into the message
  object; the model returns it.
\<close>

definition format_message ::
  "('a, 'f) Runtime \<Rightarrow> ('a, 'r) AIAssistant \<Rightarrow> 'r \<Rightarrow> 'f \<Rightarrow> ThreadMessage
     \<Rightarrow> (py_exception + string) \<times> 'f" where
  "format_message rt self remote files message =
     (case content message of
        [] \<Rightarrow> (Inl (IndexError ''list index out of range''), files)
      | MessageContentImageFile image_file # others \<Rightarrow>
          (Inl (AttributeError ''MessageContentImageFile object has no attribute annotations''),
           files)
      | MessageContentText message_content # others \<Rightarrow>
          (case format_annotations rt self remote 0 (annotations message_content)
                  (text_value message_content) [] files of
             (Inl e, files') \<Rightarrow> (Inl e, files')
           | (Inr (body, citations), files') \<Rightarrow>
               (Inr (body @ ''\<newline>'' @ join ''\<newline>'' citations), files')))"

subsection \<open>\<^verbatim>\<open>AIAssistant.extract_run_message\<close> and \<^verbatim>\<open>AIAssistant.create_response\<close>\<close>

fun first_run_message ::
  "('a, 'f) Runtime \<Rightarrow> ('a, 'r) AIAssistant \<Rightarrow> 'r \<Rightarrow> 'f \<Rightarrow> 'a Run \<Rightarrow> ThreadMessage list
     \<Rightarrow> (py_exception + string) \<times> 'f" where
  "first_run_message rt self remote files the_run [] =
     (Inr ''Assistant: No message found'', files)"
| "first_run_message rt self remote files the_run (message # messages) =
     (if message_run_id message = Some (run_id the_run)
      then (case format_message rt self remote files message of
              (Inl e, files') \<Rightarrow> (Inl e, files')
            | (Inr formatted, files') \<Rightarrow> (Inr (role message @ '': '' @ formatted), files'))
      else first_run_message rt self remote files the_run messages)"

definition extract_run_message ::
  "('a, 'f) Runtime \<Rightarrow> ('a, 'r) AIAssistant \<Rightarrow> 'r \<Rightarrow> 'f \<Rightarrow> 'a Run \<Rightarrow> string
     \<Rightarrow> (py_exception + string) \<times> 'f" where
  "extract_run_message rt self remote files the_run thread_id =
     (case messages_list (client self) remote thread_id of
        Inl e \<Rightarrow> (Inl e, files)
      | Inr messages \<Rightarrow> first_run_message rt self remote files the_run messages)"

text \<open>
  The polling loop \<^verbatim>\<open>while run.status != "completed"\<close> of \<^verbatim>\<open>create_response\<close>. The
  source sets no bound on the number of rounds, so the model takes the number of rounds
  it may still make; \<open>None\<close> says that they did not suffice. The loop leaves with the
  completed run, or with the exception that ends it. The sleep between two rounds and
  the printing are left out.
\<close>

fun polling_loop ::
  "nat \<Rightarrow> ('a, 'f) Runtime \<Rightarrow> ('a, 'r) AIAssistant \<Rightarrow> string \<Rightarrow> 'a Run \<Rightarrow> 'r
     \<Rightarrow> ((py_exception + 'a Run) \<times> 'r) option" where
  "polling_loop rounds rt self thread_id the_run remote =
     (if status the_run = ''completed'' then Some (Inr the_run, remote)
      else case rounds of
        0 \<Rightarrow> None
      | Suc n \<Rightarrow>
          (case runs_retrieve (client self) remote thread_id (run_id the_run) of
             (Inl e, remote1) \<Rightarrow> Some (Inl e, remote1)
           | (Inr run1, remote1) \<Rightarrow>
               if status run1 = ''failed''
               then Some (Inl (RuntimeError (''Run failed with the following error ''
                                               @ str_last_error rt (last_error run1))),
                          remote1)
               else if status run1 = ''expired''
               then (case get_required_functions_names self run1 of
                       Inl e \<Rightarrow> Some (Inl e, remote1)
                     | Inr pending \<Rightarrow>
                         Some (Inl (RuntimeError
                                      (''Run expired when calling ''
                                         @ str_list (map (repr_function rt) pending))),
                               remote1))
               else if status run1 = ''requires_action''
               then (case create_tool_outputs rt self run1 of
                       Inl e \<Rightarrow> Some (Inl e, remote1)
                     | Inr tool_outputs \<Rightarrow>
                         (case runs_submit_tool_outputs (client self) remote1 thread_id
                                 (run_id run1) tool_outputs of
                            (Inl e, remote2) \<Rightarrow> Some (Inl e, remote2)
                          | (Inr run2, remote2) \<Rightarrow>
                              polling_loop n rt self thread_id run2 remote2))
               else polling_loop n rt self thread_id run1 remote1))"

declare polling_loop.simps [simp del]

definition create_response ::
  "nat \<Rightarrow> ('a, 'f) Runtime \<Rightarrow> ('a, 'r) AIAssistant \<Rightarrow> 'r \<Rightarrow> 'f \<Rightarrow> string \<Rightarrow> string
     \<Rightarrow> string list option \<Rightarrow> string option \<Rightarrow> ((py_exception + string) \<times> 'r \<times> 'f) option" where
  "create_response rounds rt self remote files thread_id user_content message_files
       run_instructions =
     (case messages_create (client self) remote thread_id user_content (items message_files) of
        (Some e, remote1) \<Rightarrow> Some (Inl e, remote1, files)
      | (None, remote1) \<Rightarrow>
          (case runs_create (client self) remote1 thread_id (assistant_id self) run_instructions of
             (Inl e, remote2) \<Rightarrow> Some (Inl e, remote2, files)
           | (Inr run0, remote2) \<Rightarrow>
               (case polling_loop rounds rt self thread_id run0 remote2 of
                  None \<Rightarrow> None
                | Some (Inl e, remote3) \<Rightarrow> Some (Inl e, remote3, files)
                | Some (Inr final_run, remote3) \<Rightarrow>
                    (case extract_run_message rt self remote3 files final_run thread_id of
                       (Inl e, files') \<Rightarrow> Some (Inl e, remote3, files')
                     | (Inr message, files') \<Rightarrow>
                         Some (Inr (''\<newline>'' @ message), remote3, files')))))"


section \<open>Example objects\<close>

text \<open>
  The two functions that \<^verbatim>\<open>run_query.py\<close> registers, with their declared parameters.
  Their \<open>func\<close> is a stand-in that returns the empty text, as a query on an empty
  database does.
\<close>

definition get_db_schema :: "unit Function" where
  "get_db_schema =
     \<lparr>Function.name = ''get_db_schema'',
      description = Some ''Get the schema of the database'',
      parameters = Some [\<lparr>Property.name = ''sql_path'', type = ''string'', required = True,
                          description = Some ''The path to the SQLite database''\<rparr>],
      func = (\<lambda>kw. Inr (PyStr []))\<rparr>"

definition run_sql_query :: "unit Function" where
  "run_sql_query =
     \<lparr>Function.name = ''run_sql_query'',
      description = Some ''Run a SQL query on the database'',
      parameters = Some [\<lparr>Property.name = ''query'', type = ''string'', required = True,
                          description = Some ''The SQL query to run''\<rparr>,
                         \<lparr>Property.name = ''database'', type = ''string'', required = True,
                          description = Some ''The database to run the query on''\<rparr>],
      func = (\<lambda>kw. Inr (PyStr []))\<rparr>"

text \<open>A function that requires the parameter \<open>x\<close>, and one that declares no parameter.\<close>

definition requires_x :: "unit Function" where
  "requires_x =
     \<lparr>Function.name = ''f'', description = None,
      parameters = Some [\<lparr>Property.name = ''x'', type = ''string'', required = True,
                          description = None\<rparr>],
      func = (\<lambda>kw. Inr PyNone)\<rparr>"

definition no_parameters :: "unit Function" where
  "no_parameters =
     \<lparr>Function.name = ''now'', description = None, parameters = None,
      func = (\<lambda>kw. Inr (PyStr ''noon''))\<rparr>"

text \<open>A function that declares the parameter name \<open>a\<close> twice.\<close>

definition repeated_name :: "unit Function" where
  "repeated_name =
     \<lparr>Function.name = ''f'', description = None,
      parameters = Some [\<lparr>Property.name = ''a'', type = ''string'', required = True,
                          description = None\<rparr>,
                         \<lparr>Property.name = ''a'', type = ''integer'', required = True,
                          description = None\<rparr>],
      func = (\<lambda>kw. Inr PyNone)\<rparr>"

text \<open>
  A function whose body fails with an ordinary exception, and one that is interrupted
  from the keyboard while it runs.
\<close>

definition failing :: "unit Function" where
  "failing =
     \<lparr>Function.name = ''query'', description = None, parameters = None,
      func = (\<lambda>kw. Inl (OtherException ''OperationalError'' ''unable to open database file''))\<rparr>"

definition interrupted :: "unit Function" where
  "interrupted =
     \<lparr>Function.name = ''wait'', description = None, parameters = None,
      func = (\<lambda>kw. Inl (SystemExiting ''KeyboardInterrupt'' []))\<rparr>"

definition trace_text :: "py_exception \<Rightarrow> string" where
  "trace_text e = ''Traceback (most recent call last)''"


text \<open>
  A runtime for the examples: a fixed stack trace, a decoder that knows the empty JSON
  object, a \<^verbatim>\<open>repr\<close> of a function descriptor that shows its arguments and its name, and
  a local storage that is the list of the files written.
\<close>

definition example_runtime :: "(unit, (string \<times> unit py) list) Runtime" where
  "example_runtime =
     \<lparr>format_exc = trace_text,
      loads_arguments = (\<lambda>s. if s = ''{}'' then Inr (Some [])
                              else Inl (OtherException ''JSONDecodeError'' ''Expecting value'')),
      repr_function = (\<lambda>fn. ''Function(arguments='' @ ToolFunction.arguments fn
                               @ '', name='' @ ToolFunction.name fn @ '')''),
      str_last_error = (\<lambda>v. case v of PyStr s \<Rightarrow> s | _ \<Rightarrow> ''None''),
      write_text = (\<lambda>files n c. (None, files @ [(n, c)]))\<rparr>"

text \<open>
  A remote service that holds two files and answers the run operations with the runs of
  a script, one after the other.
\<close>

definition doc_client :: "(unit, unit Run list) Client" where
  "doc_client =
     \<lparr>files_retrieve =
        (\<lambda>r i. if i = ''file-1''
                then Inr \<lparr>file_object_id = ''file-1'', filename = ''doc.txt''\<rparr>
                else if i = ''file-2''
                then Inr \<lparr>file_object_id = ''file-2'', filename = ''/mnt/data/out.csv''\<rparr>
                else Inl (OtherException ''NotFoundError'' ''No such File object'')),
      files_content =
        (\<lambda>r i. if i = ''file-2'' then Inr (PyStr ''a,b'')
                else Inl (OtherException ''NotFoundError'' ''No such File object'')),
      messages_list = (\<lambda>r t. Inr []),
      messages_create = (\<lambda>r t c fs. (None, r)),
      runs_create =
        (\<lambda>r t a i. case r of
                      [] \<Rightarrow> (Inl (OtherException ''APIConnectionError'' ''Connection error.''), [])
                    | x # xs \<Rightarrow> (Inr x, xs)),
      runs_retrieve =
        (\<lambda>r t i. case r of
                    [] \<Rightarrow> (Inl (OtherException ''APIConnectionError'' ''Connection error.''), [])
                  | x # xs \<Rightarrow> (Inr x, xs)),
      runs_submit_tool_outputs =
        (\<lambda>r t i outs. case r of
                         [] \<Rightarrow> (Inl (OtherException ''APIConnectionError'' ''Connection error.''), [])
                       | x # xs \<Rightarrow> (Inr x, xs))\<rparr>"

text \<open>
  The assistant of \<^verbatim>\<open>run_query.py\<close>, and an assistant in which one function is
  registered twice.
\<close>

definition sql_assistant :: "(unit, unit Run list) AIAssistant" where
  "sql_assistant =
     \<lparr>client = doc_client, assistant_id = ''asst_1'',
      assistant_functions = Some [get_db_schema, run_sql_query]\<rparr>"

definition twice_registered :: "(unit, unit Run list) AIAssistant" where
  "twice_registered =
     \<lparr>client = doc_client, assistant_id = ''asst_2'',
      assistant_functions = Some [no_parameters, no_parameters]\<rparr>"

definition call_schema :: ToolCall where
  "call_schema =
     \<lparr>tool_id = ''call_1'',
      tool_function = \<lparr>ToolFunction.name = ''get_db_schema'', ToolFunction.arguments = ''{}''\<rparr>\<rparr>"

definition call_unknown :: ToolCall where
  "call_unknown =
     \<lparr>tool_id = ''call_2'',
      tool_function = \<lparr>ToolFunction.name = ''drop_table'', ToolFunction.arguments = []\<rparr>\<rparr>"

definition call_now :: ToolCall where
  "call_now =
     \<lparr>tool_id = ''call_3'',
      tool_function = \<lparr>ToolFunction.name = ''now'', ToolFunction.arguments = []\<rparr>\<rparr>"

definition pending_run :: "ToolCall list \<Rightarrow> unit Run" where
  "pending_run calls =
     \<lparr>run_id = ''run_1'', status = ''requires_action'', last_error = PyNone,
      required_action = Some calls\<rparr>"




text \<open>
  Four messages: the text \<open>A claim.\<close> with one annotation that spans all of it and cites
  a file; the same text with an annotation that spans \<open>A claim\<close> without the full stop; a
  text without annotations; a text with a file citation and a file path.
\<close>

definition a_claim :: ThreadMessage where
  "a_claim =
     \<lparr>message_run_id = Some ''run_1'', role = ''assistant'',
      content =
        [MessageContentText
           \<lparr>text_value = ''A claim.'',
            annotations =
              [\<lparr>annotation_text = ''A claim.'',
                file_citation = Some \<lparr>FileCitation.file_id = ''file-1'', quote = ''source text''\<rparr>,
                file_path = None\<rparr>]\<rparr>]\<rparr>"

definition a_claim_inner_text :: Text where
  "a_claim_inner_text =
     \<lparr>text_value = ''A claim.'',
      annotations =
        [\<lparr>annotation_text = ''A claim'',
          file_citation = Some \<lparr>FileCitation.file_id = ''file-1'', quote = ''source text''\<rparr>,
          file_path = None\<rparr>]\<rparr>"

definition a_claim_inner :: ThreadMessage where
  "a_claim_inner =
     \<lparr>message_run_id = Some ''run_1'', role = ''assistant'',
      content = [MessageContentText a_claim_inner_text]\<rparr>"

definition plain_message :: ThreadMessage where
  "plain_message =
     \<lparr>message_run_id = Some ''run_1'', role = ''assistant'',
      content = [MessageContentText \<lparr>text_value = ''There are 3 tables.'', annotations = []\<rparr>]\<rparr>"

definition two_annotations_text :: Text where
  "two_annotations_text =
     \<lparr>text_value = ''See the report [src] and the file sandbox:/mnt/data/out.csv here'',
      annotations =
        [\<lparr>annotation_text = ''[src]'',
          file_citation = Some \<lparr>FileCitation.file_id = ''file-1'', quote = ''source text''\<rparr>,
          file_path = None\<rparr>,
         \<lparr>annotation_text = ''sandbox:/mnt/data/out.csv'',
          file_citation = None,
          file_path = Some \<lparr>FilePath.file_id = ''file-2''\<rparr>\<rparr>]\<rparr>"

definition two_annotations :: ThreadMessage where
  "two_annotations =
     \<lparr>message_run_id = Some ''run_1'', role = ''assistant'',
      content = [MessageContentText two_annotations_text]\<rparr>"

definition resolve_example :: "string \<Rightarrow> FileObject" where
  "resolve_example i =
     (if i = ''file-1'' then \<lparr>file_object_id = ''file-1'', filename = ''doc.txt''\<rparr>
      else \<lparr>file_object_id = ''file-2'', filename = ''/mnt/data/out.csv''\<rparr>)"


section \<open>Properties of the function helper\<close>

subsection \<open>The wire schema\<close>

lemma map_of_dict_set: "map_of (dict_set d k v) = (map_of d)(k \<mapsto> v)"
  by (induction d) (auto simp: fun_eq_iff)

lemma keys_dict_set: "fst ` set (dict_set d k v) = insert k (fst ` set d)"
  by (induction d) force+

lemma distinct_dict_set: "distinct (map fst d) \<Longrightarrow> distinct (map fst (dict_set d k v))"
  by (induction d) (auto simp: keys_dict_set)

lemma dict_set_new: "k \<notin> set (map fst d) \<Longrightarrow> dict_set d k v = d @ [(k, v)]"
  by (induction d) auto

lemma properties_dict_distinct:
  "distinct (map fst d @ map Property.name ps) \<Longrightarrow>
   properties_dict d ps = d @ map (\<lambda>p. (Property.name p, property_schema p)) ps"
proof (induction ps arbitrary: d)
  case Nil
  then show ?case by simp
next
  case (Cons p ps)
  from Cons.prems have "Property.name p \<notin> set (map fst d)"
    by auto
  then have "dict_set d (Property.name p) (property_schema p)
               = d @ [(Property.name p, property_schema p)]"
    by (rule dict_set_new)
  moreover from Cons.prems
  have "distinct (map fst (d @ [(Property.name p, property_schema p)]) @ map Property.name ps)"
    by auto
  ultimately show ?case
    using Cons.IH by simp
qed

lemma keys_properties_dict:
  "set (map fst (properties_dict d ps)) = set (map fst d) \<union> set (map Property.name ps)"
  by (induction ps arbitrary: d) (auto simp: keys_dict_set)

lemma distinct_properties_dict:
  "distinct (map fst d) \<Longrightarrow> distinct (map fst (properties_dict d ps))"
  by (induction ps arbitrary: d) (auto simp: distinct_dict_set)

lemma map_of_properties_dict:
  "map_of (properties_dict d ps) k =
     (case filter (\<lambda>p. Property.name p = k) ps of
        [] \<Rightarrow> map_of d k
      | q # qs \<Rightarrow> Some (property_schema (last (q # qs))))"
proof (induction ps arbitrary: d)
  case Nil
  then show ?case by simp
next
  case (Cons p ps)
  show ?case
    by (simp add: Cons.IH map_of_dict_set split: list.splits)
qed

text \<open>
  C6. A function whose parameter list is absent or empty gets a schema whose
  \<open>parameters\<close> block is present: its type is \<open>object\<close>, its properties are the empty
  dictionary and its required list is empty.
\<close>

theorem to_dict_without_parameters:
  assumes "Function.parameters f = None \<or> Function.parameters f = Some []"
  shows "py_get (to_dict f) ''parameters'' =
           Some (PyDict [(''type'', PyStr ''object''),
                         (''properties'', PyDict []),
                         (''required'', PyList [])])"
  using assms by (auto simp: to_dict_def required_names_def)

theorem to_dict_without_parameters_witness:
  "py_get (to_dict no_parameters :: unit py) ''parameters'' =
     Some (PyDict [(''type'', PyStr ''object''),
                   (''properties'', PyDict []),
                   (''required'', PyList [])])
   \<and> py_get (to_dict (no_parameters\<lparr>parameters := Some []\<rparr>) :: unit py) ''parameters'' =
     Some (PyDict [(''type'', PyStr ''object''),
                   (''properties'', PyDict []),
                   (''required'', PyList [])])"
  using to_dict_without_parameters [of no_parameters]
        to_dict_without_parameters [of "no_parameters\<lparr>parameters := Some []\<rparr>"]
  by (simp add: no_parameters_def)

text \<open>
  C7, as amended. For a function with the parameter list \<open>ps\<close>, the required array of
  the schema is the list of the names of the required parameters, in declaration order.
  The properties form a dictionary whose keys are exactly the declared names, each once;
  the entry of a name holds the type and the description of the last parameter declared
  with that name. When the declared names are pairwise distinct, this is one entry per
  parameter, in declaration order, each with the parameter's own type and description.
\<close>

theorem to_dict_with_parameters:
  assumes "Function.parameters f = Some ps"
  shows "\<exists>props.
           py_get (to_dict f) ''parameters''
             = Some (PyDict [(''type'', PyStr ''object''),
                             (''properties'', PyDict props),
                             (''required'',
                                PyList (map PyStr (map Property.name
                                                     (filter Property.required ps))))])
         \<and> (distinct (map Property.name ps) \<longrightarrow>
              props = map (\<lambda>p. (Property.name p,
                                 PyDict [(''type'', PyStr (Property.type p)),
                                         (''description'',
                                            py_optional_str (Property.description p))]))
                          ps)
         \<and> distinct (map fst props)
         \<and> set (map fst props) = set (map Property.name ps)
         \<and> (\<forall>p \<in> set ps.
               map_of props (Property.name p)
                 = Some (property_schema
                           (last (filter (\<lambda>q. Property.name q = Property.name p) ps))))"
proof -
  let ?props = "properties_dict [] ps :: (string \<times> 'b py) list"
  have 1: "py_get (to_dict f :: 'b py) ''parameters''
             = Some (PyDict [(''type'', PyStr ''object''),
                             (''properties'', PyDict ?props),
                             (''required'',
                                PyList (map PyStr (map Property.name
                                                     (filter Property.required ps))))])"
    using assms by (simp add: to_dict_def required_names_def)
  have 2: "distinct (map Property.name ps) \<longrightarrow>
              ?props = map (\<lambda>p. (Property.name p,
                                 PyDict [(''type'', PyStr (Property.type p)),
                                         (''description'',
                                            py_optional_str (Property.description p))]))
                          ps"
    by (simp add: properties_dict_distinct property_schema_def)
  have 3: "distinct (map fst ?props)"
    by (rule distinct_properties_dict) simp
  have 4: "set (map fst ?props) = set (map Property.name ps)"
    by (simp add: keys_properties_dict del: set_map)
  have 5: "\<forall>p \<in> set ps.
             map_of ?props (Property.name p)
               = Some (property_schema
                         (last (filter (\<lambda>q. Property.name q = Property.name p) ps)))"
  proof
    fix p
    assume "p \<in> set ps"
    then have "filter (\<lambda>q. Property.name q = Property.name p) ps \<noteq> []"
      by (auto simp: filter_empty_conv)
    then show "map_of ?props (Property.name p)
                 = Some (property_schema
                           (last (filter (\<lambda>q. Property.name q = Property.name p) ps)))"
      by (simp add: map_of_properties_dict split: list.splits)
  qed
  from 1 2 3 4 5 show ?thesis
    by blast
qed

theorem to_dict_with_parameters_witness:
  "py_get (to_dict run_sql_query :: unit py) ''parameters''
     = Some (PyDict [(''type'', PyStr ''object''),
                     (''properties'',
                        PyDict [(''query'',
                                   PyDict [(''type'', PyStr ''string''),
                                           (''description'', PyStr ''The SQL query to run'')]),
                                (''database'',
                                   PyDict [(''type'', PyStr ''string''),
                                           (''description'',
                                              PyStr ''The database to run the query on'')])]),
                     (''required'', PyList [PyStr ''query'', PyStr ''database''])])"
  using to_dict_with_parameters
          [of run_sql_query
              "[\<lparr>Property.name = ''query'', type = ''string'', required = True,
                 description = Some ''The SQL query to run''\<rparr>,
                \<lparr>Property.name = ''database'', type = ''string'', required = True,
                 description = Some ''The database to run the query on''\<rparr>]",
           where ?'b = unit]
  by (auto simp add: run_sql_query_def py_optional_str_def)

text \<open>
  The claim as stated fails for \<open>repeated_name\<close>: two parameters are declared, the schema
  has one property entry, and that entry carries the type of the second parameter only.
\<close>

theorem to_dict_repeated_name_counterexample:
  "py_get (to_dict repeated_name :: unit py) ''parameters''
     = Some (PyDict [(''type'', PyStr ''object''),
                     (''properties'',
                        PyDict [(''a'', PyDict [(''type'', PyStr ''integer''),
                                                (''description'', PyNone)])]),
                     (''required'', PyList [PyStr ''a'', PyStr ''a''])])
   \<and> py_get (to_dict repeated_name :: unit py) ''parameters''
     \<noteq> Some (PyDict [(''type'', PyStr ''object''),
                     (''properties'',
                        PyDict [(''a'', PyDict [(''type'', PyStr ''string''),
                                                (''description'', PyNone)]),
                                (''a'', PyDict [(''type'', PyStr ''integer''),
                                                (''description'', PyNone)])]),
                     (''required'', PyList [PyStr ''a'', PyStr ''a''])])"
  by (simp add: to_dict_def repeated_name_def required_names_def property_schema_def
        py_optional_str_def)

subsection \<open>Validation and the conversion of exceptions\<close>

lemma run_raises_Exception:
  assumes "\<forall>kw e. func f kw = Inl e \<longrightarrow> isinstance_Exception e"
      and "run f fc = Inl e"
  shows "isinstance_Exception e"
  using assms
  by (auto simp: run_def call_kwargs_def split: option.splits if_splits)

text \<open>
  C1, as amended. Let the function declare the parameters \<open>ps\<close>, and let some required
  parameter name be absent from the argument mapping of the call. If the mapping is not
  empty, \<open>run\<close> fails with a \<open>MissingParametersException\<close> whose message is
  \<open>Missing parameter(s): \<close> followed by the absent required names, joined by a comma and
  a space, in declaration order. If the mapping is empty or absent, \<open>run\<close> fails with a
  \<open>MissingParametersException\<close> whose message is \<open>Missing parameters\<close> and names no
  parameter. In both cases \<open>run_catch_exceptions\<close> returns the message, a newline and the
  stack trace as a string.
\<close>

theorem run_missing_parameters:
  assumes "Function.parameters f = Some ps"
      and "missing_parameters ps (items (FunctionCall.arguments fc)) \<noteq> []"
  shows "let msg = (if truthy (FunctionCall.arguments fc)
                    then ''Missing parameter(s): ''
                           @ join '', '' (missing_parameters ps (items (FunctionCall.arguments fc)))
                    else ''Missing parameters'')
         in run f (Some fc) = Inl (MissingParametersException msg)
          \<and> run_catch_exceptions fe f (Some fc)
              = Inr (PyStr (msg @ ''\<newline>'' @ fe (MissingParametersException msg)))"
proof -
  from assms(2) have "ps \<noteq> []"
    by (auto simp: missing_parameters_def)
  with assms(1) have t: "truthy (Function.parameters f)" "items (Function.parameters f) = ps"
    by (simp_all add: truthy_def items_def)
  show ?thesis
    using t assms(2) by (simp add: run_def run_catch_exceptions_def Let_def)
qed

theorem run_missing_parameters_witness:
  "run get_db_schema
     (Some \<lparr>call_id = ''call_1'', FunctionCall.name = ''get_db_schema'',
            FunctionCall.arguments = Some [(''path'', PyStr ''./test.db'')]\<rparr>)
     = Inl (MissingParametersException ''Missing parameter(s): sql_path'')
   \<and> run get_db_schema
     (Some \<lparr>call_id = ''call_2'', FunctionCall.name = ''get_db_schema'',
            FunctionCall.arguments = Some []\<rparr>)
     = Inl (MissingParametersException ''Missing parameters'')"
  using run_missing_parameters
          [of get_db_schema
              "[\<lparr>Property.name = ''sql_path'', type = ''string'', required = True,
                 description = Some ''The path to the SQLite database''\<rparr>]"
              "\<lparr>call_id = ''call_1'', FunctionCall.name = ''get_db_schema'',
                FunctionCall.arguments = Some [(''path'', PyStr ''./test.db'')]\<rparr>"
              trace_text]
        run_missing_parameters
          [of get_db_schema
              "[\<lparr>Property.name = ''sql_path'', type = ''string'', required = True,
                 description = Some ''The path to the SQLite database''\<rparr>]"
              "\<lparr>call_id = ''call_2'', FunctionCall.name = ''get_db_schema'',
                FunctionCall.arguments = Some []\<rparr>"
              trace_text]
  by (simp add: get_db_schema_def missing_parameters_def items_def truthy_def Let_def)

text \<open>
  The claim as stated fails for the function that requires \<open>x\<close> and a call with empty
  arguments: the failure is the general message, which does not name \<open>x\<close>.
\<close>

theorem run_empty_arguments_counterexample:
  "run requires_x
     (Some \<lparr>call_id = ''call_1'', FunctionCall.name = ''f'', FunctionCall.arguments = Some []\<rparr>)
     = Inl (MissingParametersException ''Missing parameters'')
   \<and> run requires_x
     (Some \<lparr>call_id = ''call_1'', FunctionCall.name = ''f'', FunctionCall.arguments = Some []\<rparr>)
     \<noteq> Inl (MissingParametersException ''Missing parameter(s): x'')
   \<and> run_catch_exceptions trace_text requires_x
     (Some \<lparr>call_id = ''call_1'', FunctionCall.name = ''f'', FunctionCall.arguments = Some []\<rparr>)
     = Inr (PyStr ''Missing parameters\<newline>Traceback (most recent call last)'')
   \<and> CHR ''x'' \<notin> set ''Missing parameters''"
  by (simp add: run_def run_catch_exceptions_def requires_x_def truthy_def trace_text_def)

text \<open>
  C8. A function that declares no parameter (the list absent or empty), called with a
  non-empty argument mapping, fails with an \<open>UnexpectedParametersException\<close>, which
  \<open>run_catch_exceptions\<close> returns as a string: the message, a newline and the stack
  trace.
\<close>

theorem run_unexpected_parameters:
  assumes "Function.parameters f = None \<or> Function.parameters f = Some []"
      and "FunctionCall.arguments fc = Some (a # d)"
  shows "run f (Some fc) = Inl (UnexpectedParametersException ''Unexpected parameters'')
       \<and> run_catch_exceptions fe f (Some fc)
           = Inr (PyStr (''Unexpected parameters'' @ ''\<newline>''
                          @ fe (UnexpectedParametersException ''Unexpected parameters'')))"
  using assms by (auto simp: run_def run_catch_exceptions_def truthy_def)

theorem run_unexpected_parameters_witness:
  "run no_parameters
     (Some \<lparr>call_id = ''call_1'', FunctionCall.name = ''now'',
            FunctionCall.arguments = Some [(''a'', PyInt 1)]\<rparr>)
     = Inl (UnexpectedParametersException ''Unexpected parameters'')
   \<and> run_catch_exceptions trace_text no_parameters
     (Some \<lparr>call_id = ''call_1'', FunctionCall.name = ''now'',
            FunctionCall.arguments = Some [(''a'', PyInt 1)]\<rparr>)
     = Inr (PyStr ''Unexpected parameters\<newline>Traceback (most recent call last)'')"
  using run_unexpected_parameters
          [of no_parameters
              "\<lparr>call_id = ''call_1'', FunctionCall.name = ''now'',
                FunctionCall.arguments = Some [(''a'', PyInt 1)]\<rparr>"
              "(''a'', PyInt 1)" "[]" trace_text]
  by (simp add: no_parameters_def trace_text_def)

text \<open>
  C3, as amended. Whatever \<open>run\<close> raises that is an instance of \<open>Exception\<close> (the
  parameter exceptions among them) is returned by \<open>run_catch_exceptions\<close> as a string:
  the message of the exception, a newline and the stack trace. An exception leaves
  \<open>run_catch_exceptions\<close> only if \<open>run\<close> raised it and it is not an instance of
  \<open>Exception\<close>; so a function whose body raises instances of \<open>Exception\<close> only always
  yields an output.
\<close>

theorem run_catch_exceptions_converts:
  "(run f fc = Inl e \<longrightarrow> isinstance_Exception e \<longrightarrow>
      run_catch_exceptions fe f fc = Inr (PyStr (str_exception e @ ''\<newline>'' @ fe e)))
   \<and> (run_catch_exceptions fe f fc = Inl e \<longrightarrow> run f fc = Inl e \<and> \<not> isinstance_Exception e)
   \<and> ((\<forall>kw e'. func f kw = Inl e' \<longrightarrow> isinstance_Exception e') \<longrightarrow>
        (\<exists>out. run_catch_exceptions fe f fc = Inr out))"
proof (intro conjI impI)
  assume "run f fc = Inl e" "isinstance_Exception e"
  then show "run_catch_exceptions fe f fc = Inr (PyStr (str_exception e @ ''\<newline>'' @ fe e))"
    by (simp add: run_catch_exceptions_def)
next
  assume a: "run_catch_exceptions fe f fc = Inl e"
  then show "run f fc = Inl e"
    by (auto simp: run_catch_exceptions_def split: sum.splits if_splits)
  from a show "\<not> isinstance_Exception e"
    by (auto simp: run_catch_exceptions_def split: sum.splits if_splits)
next
  assume a: "\<forall>kw e'. func f kw = Inl e' \<longrightarrow> isinstance_Exception e'"
  show "\<exists>out. run_catch_exceptions fe f fc = Inr out"
  proof (cases "run f fc")
    case (Inl e')
    with a have "isinstance_Exception e'"
      using run_raises_Exception by blast
    with Inl show ?thesis
      by (simp add: run_catch_exceptions_def)
  next
    case (Inr v)
    then show ?thesis
      by (simp add: run_catch_exceptions_def)
  qed
qed

theorem run_catch_exceptions_converts_witness:
  "run failing
     (Some \<lparr>call_id = ''call_1'', FunctionCall.name = ''query'', FunctionCall.arguments = Some []\<rparr>)
     = Inl (OtherException ''OperationalError'' ''unable to open database file'')
   \<and> isinstance_Exception (OtherException ''OperationalError'' ''unable to open database file'')
   \<and> run_catch_exceptions trace_text failing
     (Some \<lparr>call_id = ''call_1'', FunctionCall.name = ''query'', FunctionCall.arguments = Some []\<rparr>)
     = Inr (PyStr ''unable to open database file\<newline>Traceback (most recent call last)'')"
  using run_catch_exceptions_converts
          [of failing
              "Some \<lparr>call_id = ''call_1'', FunctionCall.name = ''query'',
                     FunctionCall.arguments = Some []\<rparr>"
              "OtherException ''OperationalError'' ''unable to open database file''"
              trace_text]
  by (simp add: run_def failing_def truthy_def call_kwargs_def trace_text_def)

text \<open>
  The claim as stated fails for a function that is interrupted from the keyboard while
  it runs: the interrupt is not an instance of \<open>Exception\<close> and reaches the caller.
\<close>

theorem run_catch_exceptions_interrupt_counterexample:
  "run_catch_exceptions trace_text interrupted
     (Some \<lparr>call_id = ''call_1'', FunctionCall.name = ''wait'', FunctionCall.arguments = Some []\<rparr>)
     = Inl (SystemExiting ''KeyboardInterrupt'' [])"
  by (simp add: run_def run_catch_exceptions_def interrupted_def truthy_def call_kwargs_def)


section \<open>Properties of the assistant helper\<close>

subsection \<open>Dispatch of the pending calls\<close>

lemma run_registered_no_match:
  "\<forall>f \<in> set fs. Function.name f \<noteq> FunctionCall.name fc \<Longrightarrow>
   run_registered fe fs fc (found, outs) = Inr (found, outs)"
  by (induction fs) auto

lemma run_catch_exceptions_returns:
  assumes "\<forall>kw e. func f kw = Inl e \<longrightarrow> isinstance_Exception e"
  shows "\<exists>response. run_catch_exceptions fe f (Some fc) = Inr response"
  using run_raises_Exception [OF assms, of "Some fc"]
  by (cases "run f (Some fc)") (auto simp: run_catch_exceptions_def)

text \<open>
  With pairwise distinct names, the inner loop either finds no function of the requested
  name and leaves its state as it was, or runs exactly one function and appends its
  response.
\<close>

lemma run_registered_distinct:
  assumes "distinct (map Function.name fs)"
      and "\<forall>f \<in> set fs. \<forall>kw e. func f kw = Inl e \<longrightarrow> isinstance_Exception e"
  shows "(\<forall>f \<in> set fs. Function.name f \<noteq> FunctionCall.name fc)
           \<and> run_registered fe fs fc (found, outs) = Inr (found, outs)
       \<or> (\<exists>response. run_registered fe fs fc (found, outs)
             = Inr (True, outs @ [\<lparr>tool_call_id = call_id fc, tool_output = response\<rparr>]))"
  using assms
proof (induction fs arbitrary: found outs)
  case Nil
  then show ?case by simp
next
  case (Cons f fs)
  show ?case
  proof (cases "Function.name f = FunctionCall.name fc")
    case True
    from Cons.prems(2) have "\<forall>kw e. func f kw = Inl e \<longrightarrow> isinstance_Exception e"
      by simp
    then obtain response where r: "run_catch_exceptions fe f (Some fc) = Inr response"
      using run_catch_exceptions_returns by blast
    from Cons.prems(1) True have "\<forall>g \<in> set fs. Function.name g \<noteq> FunctionCall.name fc"
      by force
    then have "run_registered fe fs fc
                 (True, outs @ [\<lparr>tool_call_id = call_id fc, tool_output = response\<rparr>])
                 = Inr (True, outs @ [\<lparr>tool_call_id = call_id fc, tool_output = response\<rparr>])"
      by (rule run_registered_no_match)
    with True r show ?thesis
      by simp
  next
    case False
    from Cons.prems have "distinct (map Function.name fs)"
      and "\<forall>f \<in> set fs. \<forall>kw e. func f kw = Inl e \<longrightarrow> isinstance_Exception e"
      by simp_all
    from Cons.IH [OF this, of found outs] False show ?thesis
      by auto
  qed
qed

lemma function_call_of_fields:
  "function_call_of rt tool = Inr fc \<Longrightarrow>
   call_id fc = tool_id tool \<and> FunctionCall.name fc = ToolFunction.name (tool_function tool)"
  by (auto simp: function_call_of_def split: sum.splits if_splits)

lemma tool_outputs_loop_ids:
  assumes "distinct (map Function.name fs)"
      and "\<forall>f \<in> set fs. \<forall>kw e. func f kw = Inl e \<longrightarrow> isinstance_Exception e"
      and "\<forall>tool \<in> set calls. \<exists>fc. function_call_of rt tool = Inr fc"
  shows "\<exists>res. tool_outputs_loop rt (Some fs) calls outs = Inr res
             \<and> map tool_call_id res = map tool_call_id outs @ map tool_id calls"
  using assms(3)
proof (induction calls arbitrary: outs)
  case Nil
  then show ?case by simp
next
  case (Cons tool calls)
  from Cons.prems obtain fc where fc: "function_call_of rt tool = Inr fc"
    by auto
  note ids = function_call_of_fields [OF fc]
  from Cons.prems have rest: "\<forall>tool \<in> set calls. \<exists>fc. function_call_of rt tool = Inr fc"
    by simp
  from run_registered_distinct [OF assms(1,2), of fc "format_exc rt" False outs]
  show ?case
  proof
    assume "(\<forall>f \<in> set fs. Function.name f \<noteq> FunctionCall.name fc)
             \<and> run_registered (format_exc rt) fs fc (False, outs) = Inr (False, outs)"
    then have step: "tool_outputs_loop rt (Some fs) (tool # calls) outs
                       = tool_outputs_loop rt (Some fs) calls (outs @ [not_found_output fc])"
      using fc by simp
    from Cons.IH [OF rest, of "outs @ [not_found_output fc]"] ids show ?thesis
      unfolding step by (auto simp: not_found_output_def)
  next
    assume "\<exists>response. run_registered (format_exc rt) fs fc (False, outs)
              = Inr (True, outs @ [\<lparr>tool_call_id = call_id fc, tool_output = response\<rparr>])"
    then obtain response where
      "run_registered (format_exc rt) fs fc (False, outs)
         = Inr (True, outs @ [\<lparr>tool_call_id = call_id fc, tool_output = response\<rparr>])" ..
    then have step: "tool_outputs_loop rt (Some fs) (tool # calls) outs
                       = tool_outputs_loop rt (Some fs) calls
                           (outs @ [\<lparr>tool_call_id = call_id fc, tool_output = response\<rparr>])"
      using fc by simp
    from Cons.IH [OF rest, of "outs @ [\<lparr>tool_call_id = call_id fc, tool_output = response\<rparr>]"]
      ids
    show ?thesis
      unfolding step by auto
  qed
qed

text \<open>
  Without any condition on what the functions raise: whenever the loops return, they
  have added exactly one result per pending call, under the id of that call.
\<close>

lemma run_registered_distinct_result:
  assumes "distinct (map Function.name fs)"
      and "run_registered fe fs fc (found, outs) = Inr (found', outs')"
  shows "(\<forall>f \<in> set fs. Function.name f \<noteq> FunctionCall.name fc) \<and> found' = found \<and> outs' = outs
       \<or> found' = True
           \<and> (\<exists>response. outs' = outs @ [\<lparr>tool_call_id = call_id fc, tool_output = response\<rparr>])"
  using assms
proof (induction fs arbitrary: found outs)
  case Nil
  then show ?case by simp
next
  case (Cons f fs)
  show ?case
  proof (cases "Function.name f = FunctionCall.name fc")
    case True
    with Cons.prems(2) obtain response where
      r: "run_registered fe fs fc
            (True, outs @ [\<lparr>tool_call_id = call_id fc, tool_output = response\<rparr>])
            = Inr (found', outs')"
      by (auto split: sum.splits)
    from Cons.prems(1) True have "\<forall>g \<in> set fs. Function.name g \<noteq> FunctionCall.name fc"
      by force
    then have "run_registered fe fs fc
                 (True, outs @ [\<lparr>tool_call_id = call_id fc, tool_output = response\<rparr>])
                 = Inr (True, outs @ [\<lparr>tool_call_id = call_id fc, tool_output = response\<rparr>])"
      by (rule run_registered_no_match)
    with r show ?thesis
      by auto
  next
    case False
    with Cons.prems(2) have "run_registered fe fs fc (found, outs) = Inr (found', outs')"
      by simp
    moreover from Cons.prems(1) have "distinct (map Function.name fs)"
      by simp
    ultimately show ?thesis
      using Cons.IH False by auto
  qed
qed

lemma tool_outputs_loop_ids_result:
  assumes "distinct (map Function.name fs)"
      and "tool_outputs_loop rt (Some fs) calls outs = Inr res"
  shows "map tool_call_id res = map tool_call_id outs @ map tool_id calls"
  using assms(2)
proof (induction calls arbitrary: outs)
  case Nil
  then show ?case by simp
next
  case (Cons tool calls)
  from Cons.prems obtain fc where fc: "function_call_of rt tool = Inr fc"
    by (auto split: sum.splits)
  note ids = function_call_of_fields [OF fc]
  from Cons.prems fc obtain found' outs' where
    rr: "run_registered (format_exc rt) fs fc (False, outs) = Inr (found', outs')"
    and rest: "tool_outputs_loop rt (Some fs) calls
                 (if \<not> found' then outs' @ [not_found_output fc] else outs') = Inr res"
    by (auto split: sum.splits)
  from run_registered_distinct_result [OF assms(1) rr]
  have "map tool_call_id (if \<not> found' then outs' @ [not_found_output fc] else outs')
          = map tool_call_id outs @ [tool_id tool]"
    using ids by (auto simp: not_found_output_def)
  with Cons.IH [OF rest] show ?case
    by simp
qed

text \<open>
  C2. Let the run require action with the pending calls \<open>calls\<close>, and let the registered
  functions have pairwise distinct names, the name of a function being its unique
  identifier. Then the batch that \<open>create_tool_outputs\<close> returns holds exactly one result
  per pending call: it is as long as \<open>calls\<close>, and its i-th result carries the id of the
  i-th call. A batch is returned whenever the bodies of the registered functions raise
  instances of \<open>Exception\<close> only and the argument text of every pending call is empty or
  decodes to a mapping.
\<close>

theorem create_tool_outputs_one_result_per_call:
  assumes "assistant_functions self = Some fs"
      and "distinct (map Function.name fs)"
      and "required_action the_run = Some calls"
  shows "(create_tool_outputs rt self the_run = Inr outs \<longrightarrow>
            length outs = length calls \<and> map tool_call_id outs = map tool_id calls)
       \<and> ((\<forall>f \<in> set fs. \<forall>kw e. func f kw = Inl e \<longrightarrow> isinstance_Exception e) \<longrightarrow>
          (\<forall>tool \<in> set calls. \<exists>fc. function_call_of rt tool = Inr fc) \<longrightarrow>
            (\<exists>batch. create_tool_outputs rt self the_run = Inr batch))"
proof (intro conjI impI)
  assume "create_tool_outputs rt self the_run = Inr outs"
  with assms(1,3) have "tool_outputs_loop rt (Some fs) calls [] = Inr outs"
    by (simp add: create_tool_outputs_def)
  from tool_outputs_loop_ids_result [OF assms(2) this]
  show ids: "map tool_call_id outs = map tool_id calls"
    by simp
  then show "length outs = length calls"
    by (metis length_map)
next
  assume "\<forall>f \<in> set fs. \<forall>kw e. func f kw = Inl e \<longrightarrow> isinstance_Exception e"
    and "\<forall>tool \<in> set calls. \<exists>fc. function_call_of rt tool = Inr fc"
  from tool_outputs_loop_ids [OF assms(2) this, of "[]"] assms(1,3)
  show "\<exists>batch. create_tool_outputs rt self the_run = Inr batch"
    by (auto simp: create_tool_outputs_def)
qed

theorem create_tool_outputs_one_result_per_call_witness:
  "\<exists>batch. create_tool_outputs example_runtime sql_assistant
              (pending_run [call_schema, call_unknown]) = Inr batch
         \<and> length batch = 2
         \<and> map tool_call_id batch = [''call_1'', ''call_2'']"
proof -
  have 1: "assistant_functions sql_assistant = Some [get_db_schema, run_sql_query]"
    by (simp add: sql_assistant_def)
  have 2: "distinct (map Function.name [get_db_schema, run_sql_query])"
    by (simp add: get_db_schema_def run_sql_query_def)
  have 3: "required_action (pending_run [call_schema, call_unknown])
             = Some [call_schema, call_unknown]"
    by (simp add: pending_run_def)
  have 4: "\<forall>f \<in> set [get_db_schema, run_sql_query].
             \<forall>kw e. func f kw = Inl e \<longrightarrow> isinstance_Exception e"
    by (simp add: get_db_schema_def run_sql_query_def)
  have 5: "\<forall>tool \<in> set [call_schema, call_unknown].
             \<exists>fc. function_call_of example_runtime tool = Inr fc"
    by (simp add: call_schema_def call_unknown_def function_call_of_def example_runtime_def)
  from create_tool_outputs_one_result_per_call [OF 1 2 3, of example_runtime] 4 5
  obtain batch where b: "create_tool_outputs example_runtime sql_assistant
                           (pending_run [call_schema, call_unknown]) = Inr batch"
    by blast
  with create_tool_outputs_one_result_per_call [OF 1 2 3, of example_runtime batch]
  have "length batch = length [call_schema, call_unknown]
        \<and> map tool_call_id batch = map tool_id [call_schema, call_unknown]"
    by blast
  with b show ?thesis
    by (auto simp: call_schema_def call_unknown_def)
qed

text \<open>
  The distinct names are used: the inner loop does not stop at the first match, so with
  one name registered twice a single pending call gets two results.
\<close>

lemma create_tool_outputs_name_registered_twice:
  "create_tool_outputs example_runtime twice_registered (pending_run [call_now])
     = Inr [\<lparr>tool_call_id = ''call_3'', tool_output = PyStr ''noon''\<rparr>,
            \<lparr>tool_call_id = ''call_3'', tool_output = PyStr ''noon''\<rparr>]
   \<and> \<not> (\<exists>outs. create_tool_outputs example_runtime twice_registered (pending_run [call_now])
                  = Inr outs
                \<and> length outs = length [call_now])"
  by (simp add: create_tool_outputs_def twice_registered_def pending_run_def call_now_def
        function_call_of_def no_parameters_def run_catch_exceptions_def run_def truthy_def
        call_kwargs_def)

text \<open>
  C4. Let \<open>fc\<close> be the function call built from a pending tool call whose name is the
  name of no registered function. Then no registered function is run and nothing is
  raised; the loop appends the output \<open>Function {name} not found\<close> under the id of the
  call and goes on with the remaining calls. A batch with this call alone yields exactly
  this output.
\<close>

theorem unknown_function_not_found:
  assumes "\<forall>f \<in> set fs. Function.name f \<noteq> ToolFunction.name (tool_function tool)"
      and "function_call_of rt tool = Inr fc"
  shows "run_registered (format_exc rt) fs fc (False, outs) = Inr (False, outs)
       \<and> tool_outputs_loop rt (Some fs) (tool # tools) outs
           = tool_outputs_loop rt (Some fs) tools
               (outs @ [\<lparr>tool_call_id = tool_id tool,
                         tool_output = PyStr (''Function ''
                                               @ ToolFunction.name (tool_function tool)
                                               @ '' not found'')\<rparr>])
       \<and> (assistant_functions self = Some fs \<longrightarrow> required_action the_run = Some [tool] \<longrightarrow>
            create_tool_outputs rt self the_run
              = Inr [\<lparr>tool_call_id = tool_id tool,
                      tool_output = PyStr (''Function ''
                                            @ ToolFunction.name (tool_function tool)
                                            @ '' not found'')\<rparr>])"
proof -
  note ids = function_call_of_fields [OF assms(2)]
  with assms(1) have "\<forall>f \<in> set fs. Function.name f \<noteq> FunctionCall.name fc"
    by simp
  then have nm: "run_registered (format_exc rt) fs fc (False, outs') = Inr (False, outs')"
    for outs'
    by (rule run_registered_no_match)
  have nf: "not_found_output fc
              = \<lparr>tool_call_id = tool_id tool,
                 tool_output = PyStr (''Function '' @ ToolFunction.name (tool_function tool)
                                       @ '' not found'')\<rparr>"
    using ids by (simp add: not_found_output_def)
  have step: "tool_outputs_loop rt (Some fs) (tool # tools') outs'
                = tool_outputs_loop rt (Some fs) tools' (outs' @ [not_found_output fc])"
    for tools' outs'
    using assms(2) nm by simp
  show ?thesis
    using nm step [of tools outs] step [of "[]" "[]"] nf
    by (simp add: create_tool_outputs_def)
qed

theorem unknown_function_not_found_witness:
  "create_tool_outputs example_runtime sql_assistant (pending_run [call_unknown])
     = Inr [\<lparr>tool_call_id = ''call_2'',
             tool_output = PyStr ''Function drop_table not found''\<rparr>]"
  using unknown_function_not_found
          [where fs = "[get_db_schema, run_sql_query]" and tool = call_unknown
             and rt = example_runtime and self = sql_assistant
             and the_run = "pending_run [call_unknown]"
             and fc = "\<lparr>call_id = ''call_2'', FunctionCall.name = ''drop_table'',
                        FunctionCall.arguments = Some []\<rparr>"]
  by (simp add: sql_assistant_def get_db_schema_def run_sql_query_def pending_run_def
        call_unknown_def function_call_of_def)

subsection \<open>The formatting of a message\<close>

text \<open>
  Whenever the loop over the annotations ends without an exception, the text it leaves
  is the message text in which the annotation texts have been replaced one after the
  other, and the citations it has added are, in the order of the annotations, the
  citation line of every annotation that carries a file citation or a file path, made
  from the file that the remote service returns for it.
\<close>

lemma format_annotations_result:
  "format_annotations rt self remote i anns body cites files = (Inr (body', cites'), files') \<Longrightarrow>
   body' = foldl (\<lambda>b (k, a). replace (annotation_text a) ('' ['' @ str_nat k @ '']'') b) body
             (enumerate i anns)
   \<and> cites' = cites @ concat (map (\<lambda>(k, a).
                  case file_citation a of
                    Some fc \<Rightarrow>
                      (case files_retrieve (client self) remote (FileCitation.file_id fc) of
                         Inr cited_file \<Rightarrow>
                           [''['' @ str_nat k @ ''] '' @ quote fc @ '' from ''
                              @ filename cited_file]
                       | Inl e \<Rightarrow> [])
                  | None \<Rightarrow>
                      (case file_path a of
                         Some fp \<Rightarrow>
                           (case files_retrieve (client self) remote (FilePath.file_id fp) of
                              Inr cited_file \<Rightarrow>
                                [''['' @ str_nat k @ ''] file: '' @ filename cited_file
                                   @ '' is downloaded'']
                            | Inl e \<Rightarrow> [])
                       | None \<Rightarrow> []))
                (enumerate i anns))"
proof (induction anns arbitrary: i body cites files)
  case Nil
  then show ?case by simp
next
  case (Cons a anns)
  show ?case
  proof (cases "file_citation a")
    case (Some fc)
    with Cons.prems obtain cf where
      cf: "files_retrieve (client self) remote (FileCitation.file_id fc) = Inr cf"
      and rest: "format_annotations rt self remote (Suc i) anns
         (replace (annotation_text a) (index_marker i) body)
         (cites @ [citation_line i fc cf]) files = (Inr (body', cites'), files')"
      by (auto simp: Let_def split: sum.splits)
    from Cons.IH [OF rest] Some cf show ?thesis
      by (simp add: index_marker_def citation_line_def)
  next
    case None
    show ?thesis
    proof (cases "file_path a")
      case (Some fp)
      with None Cons.prems obtain cf files1 where
        cf: "files_retrieve (client self) remote (FilePath.file_id fp) = Inr cf"
        and rest: "format_annotations rt self remote (Suc i) anns
           (replace (annotation_text a) (index_marker i) body)
           (cites @ [download_line i cf]) files1 = (Inr (body', cites'), files')"
        by (auto simp: Let_def split: sum.splits prod.splits option.splits)
      from Cons.IH [OF rest] None Some cf show ?thesis
        by (simp add: index_marker_def download_line_def)
    next
      case no_path: None
      with None Cons.prems have rest:
        "format_annotations rt self remote (Suc i) anns
           (replace (annotation_text a) (index_marker i) body) cites files
           = (Inr (body', cites'), files')"
        by (simp add: Let_def)
      from Cons.IH [OF rest] None no_path show ?thesis
        by (simp add: index_marker_def)
    qed
  qed
qed

text \<open>
  When every annotation carries a file citation or a file path, the file of each is
  retrieved (\<open>resolve\<close> gives the file object of a file id) and every download can be
  written, the loop ends without an exception and adds one citation per annotation.
\<close>

lemma format_annotations_resolved:
  assumes "\<forall>a \<in> set anns.
             (case file_citation a of
                Some fc \<Rightarrow>
                  files_retrieve (client self) remote (FileCitation.file_id fc)
                    = Inr (resolve (FileCitation.file_id fc))
              | None \<Rightarrow>
                  (case file_path a of
                     Some fp \<Rightarrow>
                       files_retrieve (client self) remote (FilePath.file_id fp)
                         = Inr (resolve (FilePath.file_id fp))
                       \<and> (\<forall>files. fst (create_file rt self remote files
                                          (filename (resolve (FilePath.file_id fp)))
                                          (file_object_id (resolve (FilePath.file_id fp))))
                                   = None)
                   | None \<Rightarrow> False))"
  shows "fst (format_annotations rt self remote i anns body cites files)
           = Inr (foldl (\<lambda>b (k, a). replace (annotation_text a) ('' ['' @ str_nat k @ '']'') b)
                    body (enumerate i anns),
                  cites @ map (\<lambda>(k, a).
                           case file_citation a of
                             Some fc \<Rightarrow>
                               ''['' @ str_nat k @ ''] '' @ quote fc @ '' from ''
                                 @ filename (resolve (FileCitation.file_id fc))
                           | None \<Rightarrow>
                               (case file_path a of
                                  Some fp \<Rightarrow>
                                    ''['' @ str_nat k @ ''] file: ''
                                      @ filename (resolve (FilePath.file_id fp))
                                      @ '' is downloaded''
                                | None \<Rightarrow> []))
                         (enumerate i anns))"
  using assms
proof (induction anns arbitrary: i body cites files)
  case Nil
  then show ?case by simp
next
  case (Cons a anns)
  from Cons.prems have rest:
    "\<forall>a \<in> set anns.
       (case file_citation a of
          Some fc \<Rightarrow>
            files_retrieve (client self) remote (FileCitation.file_id fc)
              = Inr (resolve (FileCitation.file_id fc))
        | None \<Rightarrow>
            (case file_path a of
               Some fp \<Rightarrow>
                 files_retrieve (client self) remote (FilePath.file_id fp)
                   = Inr (resolve (FilePath.file_id fp))
                 \<and> (\<forall>files. fst (create_file rt self remote files
                                    (filename (resolve (FilePath.file_id fp)))
                                    (file_object_id (resolve (FilePath.file_id fp))))
                             = None)
             | None \<Rightarrow> False))"
    by simp
  note IH = Cons.IH [OF rest]
  show ?case
  proof (cases "file_citation a")
    case (Some fc)
    with Cons.prems have "files_retrieve (client self) remote (FileCitation.file_id fc)
                            = Inr (resolve (FileCitation.file_id fc))"
      by simp
    with Some show ?thesis
      by (simp add: Let_def IH index_marker_def citation_line_def)
  next
    case None
    with Cons.prems obtain fp where fp: "file_path a = Some fp"
      and r: "files_retrieve (client self) remote (FilePath.file_id fp)
                = Inr (resolve (FilePath.file_id fp))"
      and w: "\<forall>files. fst (create_file rt self remote files
                              (filename (resolve (FilePath.file_id fp)))
                              (file_object_id (resolve (FilePath.file_id fp)))) = None"
      by (auto split: option.splits)
    obtain files1 where
      "create_file rt self remote files
         (filename (resolve (FilePath.file_id fp)))
         (file_object_id (resolve (FilePath.file_id fp))) = (None, files1)"
      using w by (metis fst_conv surj_pair)
    with None fp r show ?thesis
      by (simp add: Let_def IH index_marker_def download_line_def)
  qed
qed

text \<open>
  C5, as amended. Let the first content part of the message be the text \<open>t\<close>, let every
  annotation of \<open>t\<close> carry a file citation or a file path, let the file of each be
  retrieved and every download be written. Then \<open>format_message\<close> returns the message
  text in which, for the annotations in the order in which they are returned, every
  occurrence of the text of annotation \<open>i\<close> has been replaced by a space and the index in
  brackets; then a newline; then one line per annotation, joined by newlines:
  \<open>[i] {quote} from {filename}\<close> for a file citation, \<open>[i] file: {filename} is downloaded\<close>
  for a file path. In particular, for the text \<open>A claim.\<close> with one annotation that spans
  \<open>A claim.\<close> and cites \<open>source text\<close> of \<open>doc.txt\<close>, the result is \<open> [0]\<close>, a newline and
  \<open>[0] source text from doc.txt\<close>: the full stop belongs to the annotated text and is
  replaced with it. (An annotation that spans \<open>A claim\<close> without the full stop gives
  \<open> [0].\<close> before the newline.)
\<close>

theorem format_message_citations:
  assumes "content message = MessageContentText t # others"
      and "\<forall>a \<in> set (annotations t).
             (case file_citation a of
                Some fc \<Rightarrow>
                  files_retrieve (client self) remote (FileCitation.file_id fc)
                    = Inr (resolve (FileCitation.file_id fc))
              | None \<Rightarrow>
                  (case file_path a of
                     Some fp \<Rightarrow>
                       files_retrieve (client self) remote (FilePath.file_id fp)
                         = Inr (resolve (FilePath.file_id fp))
                       \<and> (\<forall>files. fst (create_file rt self remote files
                                          (filename (resolve (FilePath.file_id fp)))
                                          (file_object_id (resolve (FilePath.file_id fp))))
                                   = None)
                   | None \<Rightarrow> False))"
  shows "fst (format_message rt self remote files message)
           = Inr (foldl (\<lambda>b (k, a). replace (annotation_text a) ('' ['' @ str_nat k @ '']'') b)
                    (text_value t) (enumerate 0 (annotations t))
                  @ ''\<newline>''
                  @ join ''\<newline>''
                      (map (\<lambda>(k, a).
                              case file_citation a of
                                Some fc \<Rightarrow>
                                  ''['' @ str_nat k @ ''] '' @ quote fc @ '' from ''
                                    @ filename (resolve (FileCitation.file_id fc))
                              | None \<Rightarrow>
                                  (case file_path a of
                                     Some fp \<Rightarrow>
                                       ''['' @ str_nat k @ ''] file: ''
                                         @ filename (resolve (FilePath.file_id fp))
                                         @ '' is downloaded''
                                   | None \<Rightarrow> []))
                           (enumerate 0 (annotations t))))"
proof -
  obtain res files' where eq:
    "format_annotations rt self remote 0 (annotations t) (text_value t) [] files = (res, files')"
    by (cases "format_annotations rt self remote 0 (annotations t) (text_value t) [] files")
  from format_annotations_resolved [OF assms(2), of 0 "text_value t" "[]" files] eq
  have "res = Inr (foldl (\<lambda>b (k, a). replace (annotation_text a) ('' ['' @ str_nat k @ '']'') b)
                     (text_value t) (enumerate 0 (annotations t)),
                   map (\<lambda>(k, a).
                          case file_citation a of
                            Some fc \<Rightarrow>
                              ''['' @ str_nat k @ ''] '' @ quote fc @ '' from ''
                                @ filename (resolve (FileCitation.file_id fc))
                          | None \<Rightarrow>
                              (case file_path a of
                                 Some fp \<Rightarrow>
                                   ''['' @ str_nat k @ ''] file: ''
                                     @ filename (resolve (FilePath.file_id fp))
                                     @ '' is downloaded''
                               | None \<Rightarrow> []))
                       (enumerate 0 (annotations t)))"
    by simp
  with eq assms(1) show ?thesis
    by (simp add: format_message_def)
qed

theorem format_message_citations_witness:
  "fst (format_message example_runtime sql_assistant [] [] two_annotations)
     = Inr ''See the report  [0] and the file  [1] here\<newline>[0] source text from doc.txt\<newline>[1] file: /mnt/data/out.csv is downloaded''
   \<and> fst (format_message example_runtime sql_assistant [] [] a_claim_inner)
     = Inr '' [0].\<newline>[0] source text from doc.txt''"
  using format_message_citations
          [where message = two_annotations and self = sql_assistant and remote = "[]"
             and files = "[]" and rt = example_runtime and resolve = resolve_example
             and t = two_annotations_text and others = "[]"]
        format_message_citations
          [where message = a_claim_inner and self = sql_assistant and remote = "[]"
             and files = "[]" and rt = example_runtime and resolve = resolve_example
             and t = a_claim_inner_text and others = "[]"]
  by (simp add: two_annotations_def two_annotations_text_def a_claim_inner_def
        a_claim_inner_text_def sql_assistant_def doc_client_def resolve_example_def
        create_file_def example_runtime_def replace_def str_nat.simps [of 0]
        str_nat.simps [of "Suc 0"] digit_char_def)

text \<open>
  The claim as stated fails on its own example: the result for \<open>A claim.\<close> is \<open> [0]\<close> and
  the citation line, without the full stop that the claim puts after the index.
\<close>

theorem format_message_a_claim_counterexample:
  "fst (format_message example_runtime sql_assistant [] [] a_claim)
     = Inr '' [0]\<newline>[0] source text from doc.txt''
   \<and> fst (format_message example_runtime sql_assistant [] [] a_claim)
     \<noteq> Inr '' [0].\<newline>[0] source text from doc.txt''"
  by (simp add: format_message_def a_claim_def sql_assistant_def doc_client_def replace_def
        index_marker_def citation_line_def str_nat.simps [of 0] digit_char_def)

text \<open>
  C10. For a message whose first content part is a text without annotations,
  \<open>format_message\<close> returns the text followed by a newline. Whatever string
  \<open>format_message\<close> returns, it is the message text with the annotation texts replaced,
  followed by a newline, followed by the citation lines of the annotations joined by
  newlines: the line of every annotation that carries a file citation or a file path,
  in the order of the annotations, made from the file that the remote service returns
  for it. Nothing is tested before the newline and the lines are appended.
\<close>

theorem format_message_appends_newline:
  "(content message = MessageContentText t # others \<longrightarrow> annotations t = [] \<longrightarrow>
      format_message rt self remote files message = (Inr (text_value t @ ''\<newline>''), files))
   \<and> (fst (format_message rt self remote files message) = Inr s \<longrightarrow>
        (\<exists>t others.
           content message = MessageContentText t # others
         \<and> s = foldl (\<lambda>b (k, a). replace (annotation_text a) ('' ['' @ str_nat k @ '']'') b)
                  (text_value t) (enumerate 0 (annotations t))
               @ ''\<newline>''
               @ join ''\<newline>''
                   (concat (map (\<lambda>(k, a).
                      case file_citation a of
                        Some fc \<Rightarrow>
                          (case files_retrieve (client self) remote (FileCitation.file_id fc) of
                             Inr cited_file \<Rightarrow>
                               [''['' @ str_nat k @ ''] '' @ quote fc @ '' from ''
                                  @ filename cited_file]
                           | Inl e \<Rightarrow> [])
                      | None \<Rightarrow>
                          (case file_path a of
                             Some fp \<Rightarrow>
                               (case files_retrieve (client self) remote (FilePath.file_id fp) of
                                  Inr cited_file \<Rightarrow>
                                    [''['' @ str_nat k @ ''] file: '' @ filename cited_file
                                       @ '' is downloaded'']
                                | Inl e \<Rightarrow> [])
                           | None \<Rightarrow> []))
                    (enumerate 0 (annotations t))))))"
proof (intro conjI impI)
  assume "content message = MessageContentText t # others" "annotations t = []"
  then show "format_message rt self remote files message
               = (Inr (text_value t @ ''\<newline>''), files)"
    by (simp add: format_message_def)
next
  assume a: "fst (format_message rt self remote files message) = Inr s"
  then obtain t others where c: "content message = MessageContentText t # others"
    by (auto simp: format_message_def split: list.splits Content.splits)
  obtain res files' where eq:
    "format_annotations rt self remote 0 (annotations t) (text_value t) [] files = (res, files')"
    by (cases "format_annotations rt self remote 0 (annotations t) (text_value t) [] files")
  with a c obtain body cites where res: "res = Inr (body, cites)"
    and s: "s = body @ ''\<newline>'' @ join ''\<newline>'' cites"
    by (auto simp: format_message_def split: sum.splits)
  from format_annotations_result [OF eq [unfolded res]] s c
  show "\<exists>t others.
           content message = MessageContentText t # others
         \<and> s = foldl (\<lambda>b (k, a). replace (annotation_text a) ('' ['' @ str_nat k @ '']'') b)
                  (text_value t) (enumerate 0 (annotations t))
               @ ''\<newline>''
               @ join ''\<newline>''
                   (concat (map (\<lambda>(k, a).
                      case file_citation a of
                        Some fc \<Rightarrow>
                          (case files_retrieve (client self) remote (FileCitation.file_id fc) of
                             Inr cited_file \<Rightarrow>
                               [''['' @ str_nat k @ ''] '' @ quote fc @ '' from ''
                                  @ filename cited_file]
                           | Inl e \<Rightarrow> [])
                      | None \<Rightarrow>
                          (case file_path a of
                             Some fp \<Rightarrow>
                               (case files_retrieve (client self) remote (FilePath.file_id fp) of
                                  Inr cited_file \<Rightarrow>
                                    [''['' @ str_nat k @ ''] file: '' @ filename cited_file
                                       @ '' is downloaded'']
                                | Inl e \<Rightarrow> [])
                           | None \<Rightarrow> []))
                    (enumerate 0 (annotations t))))"
    by auto
qed

theorem format_message_appends_newline_witness:
  "format_message example_runtime sql_assistant [] [] plain_message
     = (Inr ''There are 3 tables.\<newline>'', [])
   \<and> ''There are 3 tables.\<newline>'' \<noteq> ''There are 3 tables.''
   \<and> fst (format_message example_runtime sql_assistant [] [] two_annotations)
     = Inr (''See the report  [0] and the file  [1] here'' @ ''\<newline>''
            @ join ''\<newline>'' [''[0] source text from doc.txt'',
                                  ''[1] file: /mnt/data/out.csv is downloaded''])"
proof -
  let ?s = "''See the report  [0] and the file  [1] here\<newline>[0] source text from doc.txt\<newline>[1] file: /mnt/data/out.csv is downloaded''"
  have plain: "format_message example_runtime sql_assistant [] [] plain_message
                 = (Inr ''There are 3 tables.\<newline>'', [])"
    using format_message_appends_newline
            [where message = plain_message and others = "[]" and rt = example_runtime
               and self = sql_assistant and remote = "[]" and files = "[]"
               and t = "\<lparr>text_value = ''There are 3 tables.'', annotations = []\<rparr>"
               and s = "''There are 3 tables.\<newline>''"]
    by (simp add: plain_message_def)
  have two: "fst (format_message example_runtime sql_assistant [] [] two_annotations) = Inr ?s"
    by (simp add: format_message_def two_annotations_def two_annotations_text_def
          sql_assistant_def doc_client_def create_file_def example_runtime_def replace_def
          index_marker_def citation_line_def download_line_def str_nat.simps [of 0]
          str_nat.simps [of "Suc 0"] digit_char_def)
  from format_message_appends_newline
         [where message = two_annotations and rt = example_runtime and self = sql_assistant
            and remote = "[]" and files = "[]" and s = ?s, THEN conjunct2, rule_format, OF two]
  obtain t others where c: "content two_annotations = MessageContentText t # others"
    and s: "?s = foldl (\<lambda>b (k, a). replace (annotation_text a) ('' ['' @ str_nat k @ '']'') b)
                  (text_value t) (enumerate 0 (annotations t))
               @ ''\<newline>''
               @ join ''\<newline>''
                   (concat (map (\<lambda>(k, a).
                      case file_citation a of
                        Some fc \<Rightarrow>
                          (case files_retrieve (client sql_assistant) [] (FileCitation.file_id fc) of
                             Inr cited_file \<Rightarrow>
                               [''['' @ str_nat k @ ''] '' @ quote fc @ '' from ''
                                  @ filename cited_file]
                           | Inl e \<Rightarrow> [])
                      | None \<Rightarrow>
                          (case file_path a of
                             Some fp \<Rightarrow>
                               (case files_retrieve (client sql_assistant) [] (FilePath.file_id fp) of
                                  Inr cited_file \<Rightarrow>
                                    [''['' @ str_nat k @ ''] file: '' @ filename cited_file
                                       @ '' is downloaded'']
                                | Inl e \<Rightarrow> [])
                           | None \<Rightarrow> []))
                    (enumerate 0 (annotations t))))"
    by (elim exE conjE)
  from c have t: "t = two_annotations_text"
    by (simp add: two_annotations_def)
  have lines: "concat (map (\<lambda>(k, a).
                      case file_citation a of
                        Some fc \<Rightarrow>
                          (case files_retrieve (client sql_assistant) [] (FileCitation.file_id fc) of
                             Inr cited_file \<Rightarrow>
                               [''['' @ str_nat k @ ''] '' @ quote fc @ '' from ''
                                  @ filename cited_file]
                           | Inl e \<Rightarrow> [])
                      | None \<Rightarrow>
                          (case file_path a of
                             Some fp \<Rightarrow>
                               (case files_retrieve (client sql_assistant) [] (FilePath.file_id fp) of
                                  Inr cited_file \<Rightarrow>
                                    [''['' @ str_nat k @ ''] file: '' @ filename cited_file
                                       @ '' is downloaded'']
                                | Inl e \<Rightarrow> [])
                           | None \<Rightarrow> []))
                    (enumerate 0 (annotations two_annotations_text)))
               = [''[0] source text from doc.txt'', ''[1] file: /mnt/data/out.csv is downloaded'']"
    by (simp add: two_annotations_text_def sql_assistant_def doc_client_def
          str_nat.simps [of 0] str_nat.simps [of "Suc 0"] digit_char_def)
  have body: "foldl (\<lambda>b (k, a). replace (annotation_text a) ('' ['' @ str_nat k @ '']'') b)
                  (text_value two_annotations_text) (enumerate 0 (annotations two_annotations_text))
              = ''See the report  [0] and the file  [1] here''"
    by (simp add: two_annotations_text_def replace_def
          str_nat.simps [of 0] str_nat.simps [of "Suc 0"] digit_char_def)
  from s have "?s = ''See the report  [0] and the file  [1] here'' @ ''\<newline>''
            @ join ''\<newline>'' [''[0] source text from doc.txt'',
                                  ''[1] file: /mnt/data/out.csv is downloaded'']"
    unfolding t lines body .
  with two have "fst (format_message example_runtime sql_assistant [] [] two_annotations)
     = Inr (''See the report  [0] and the file  [1] here'' @ ''\<newline>''
            @ join ''\<newline>'' [''[0] source text from doc.txt'',
                                  ''[1] file: /mnt/data/out.csv is downloaded''])"
    by (simp only:)
  with plain show ?thesis
    by simp
qed

subsection \<open>The polling loop\<close>







end
